theory Spec2Isabelle
  imports Main "HOL-Library.AList"
begin

section \<open>JavaScript values and objects\<close>

text \<open>
  Attribute values are JSON-like values. An object is the list of its own enumerable
  string-keyed properties in the order \<open>Object.entries\<close> enumerates them, with distinct
  keys; \<open>obj[k] = v\<close> overwrites in place or appends (\<open>AList.update\<close>), \<open>obj[k]\<close> is
  \<open>map_of\<close> on the object's own properties. The entries of an object are taken to have
  ordinary names: array-index names (which JavaScript enumerates first) and an own
  property named \<open>__proto__\<close> are outside the model.
\<close>

datatype js_value =
    JString string
  | JNumber int
  | JBool bool
  | JObject "(string \<times> js_value) list"

type_synonym js_object = "(string \<times> js_value) list"

text \<open>\<open>Object.assign(target, ...sources)\<close>: every property of every source, in order,
  is assigned onto the target.\<close>

definition Object_assign :: "(string \<times> 'v) list \<Rightarrow> (string \<times> 'v) list list \<Rightarrow> (string \<times> 'v) list" where
  "Object_assign target sources =
     foldl (\<lambda>t src. foldl (\<lambda>t' (k, v). AList.update k v t') t src) target sources"

text \<open>
  Reading \<open>obj[k]\<close> from a plain object (an object literal, or the result of
  \<open>Object.assign({}, ...)\<close>) finds an own property first and then follows the prototype
  chain to \<open>Object.prototype\<close>, whose members are listed here; only a name found
  nowhere reads as \<open>undefined\<close>. Every member of \<open>Object.prototype\<close> is a function,
  except \<open>__proto__\<close>, which reads as \<open>Object.prototype\<close> itself.
\<close>

definition Object_prototype_names :: "string list" where
  "Object_prototype_names =
     [''constructor'', ''__defineGetter__'', ''__defineSetter__'', ''hasOwnProperty'',
      ''__lookupGetter__'', ''__lookupSetter__'', ''isPrototypeOf'', ''propertyIsEnumerable'',
      ''toString'', ''valueOf'', ''__proto__'', ''toLocaleString'']"

datatype 'v property = Undefined | Own 'v | Inherited string

definition js_get :: "(string \<times> 'v) list \<Rightarrow> string \<Rightarrow> 'v property" where
  "js_get obj k =
     (case map_of obj k of
        Some v \<Rightarrow> Own v
      | None \<Rightarrow> if k \<in> set Object_prototype_names then Inherited k else Undefined)"

text \<open>\<open>Array.prototype.join\<close> on an array of strings.\<close>

fun join :: "string \<Rightarrow> string list \<Rightarrow> string" where
  "join sep [] = []"
| "join sep [x] = x"
| "join sep (x # y # ys) = x @ sep @ join sep (y # ys)"

text \<open>Truthiness of the values the code tests with \<open>!\<close>, \<open>&&\<close> and \<open>||\<close>: a number is
  falsy when it is 0, a string when it is empty, and \<open>undefined\<close> always.\<close>

definition truthy_number :: "int \<Rightarrow> bool" where
  "truthy_number n = (n \<noteq> 0)"

definition truthy_string :: "string \<Rightarrow> bool" where
  "truthy_string s = (s \<noteq> [])"

fun truthy_opt :: "('a \<Rightarrow> bool) \<Rightarrow> 'a option \<Rightarrow> bool" where
  "truthy_opt t None = False"
| "truthy_opt t (Some x) = t x"

text \<open>A thrown \<open>Error\<close> with its message.\<close>

datatype js_error = Error string | TypeError string


section \<open>result.ts: the result envelope\<close>

datatype ErrorStatusCodeRange = Client | Server

fun ErrorStatusCodeRange_value :: "ErrorStatusCodeRange \<Rightarrow> int" where
  "ErrorStatusCodeRange_value Client = 400"
| "ErrorStatusCodeRange_value Server = 500"

datatype ErrorType =
    BadRequest | Unauthorized | Forbidden | NotFound | Conflict
  | InternalServerError | ServiceUnavailable

fun ErrorType_value :: "ErrorType \<Rightarrow> int" where
  "ErrorType_value BadRequest = 400"
| "ErrorType_value Unauthorized = 401"
| "ErrorType_value Forbidden = 403"
| "ErrorType_value NotFound = 404"
| "ErrorType_value Conflict = 409"
| "ErrorType_value InternalServerError = 500"
| "ErrorType_value ServiceUnavailable = 503"

datatype SuccessType = Ok | Created | NoContent

fun SuccessType_value :: "SuccessType \<Rightarrow> int" where
  "SuccessType_value Ok = 200"
| "SuccessType_value Created = 201"
| "SuccessType_value NoContent = 204"

text \<open>
  What the field \<open>defaultStatusCode\<close> of an \<open>Err\<close> holds: a member of \<open>ErrorType\<close>, or,
  when the builder's lookup found an inherited name, the member of \<open>Object.prototype\<close> of
  that name. Comparing with \<open>>=\<close> converts its operand to a number; a function or an
  object converts to \<open>NaN\<close>, and \<open>NaN >= n\<close> is false.
\<close>

datatype status_code = Status ErrorType | Member string

fun status_at_least :: "status_code \<Rightarrow> int \<Rightarrow> bool" where
  "status_at_least (Status t) n = (ErrorType_value t \<ge> n)"
| "status_at_least (Member name) n = False"

definition determineErrorStatusRange :: "status_code \<Rightarrow> ErrorStatusCodeRange" where
  "determineErrorStatusRange statusCode =
     (if status_at_least statusCode 500 then Server else Client)"

text \<open>The members of \<open>AwsErrorCode\<close> the client names.\<close>

definition ConditionalCheckFailedException :: string where
  "ConditionalCheckFailedException = ''ConditionalCheckFailedException''"

definition ValidationException :: string where
  "ValidationException = ''ValidationException''"

definition ResourceNotFoundException :: string where
  "ResourceNotFoundException = ''ResourceNotFoundException''"

text \<open>The fields of the SDK's \<open>AWSError\<close> that the builder reads.\<close>

record AWSError =
  aws_code :: string
  aws_message :: string
  aws_statusCode :: int

record Err =
  isAwsError :: bool
  err_defaultStatusCode :: status_code
  err_message :: string
  errorStatusCodeRange :: ErrorStatusCodeRange
  awsError :: "AWSError option"

text \<open>\<open>Err.Builder\<close>: an unset field is \<open>None\<close>; the override table starts empty.\<close>

record Err_Builder =
  eb_message :: "string option"
  eb_errorType :: "ErrorType option"
  eb_awsError :: "AWSError option"
  awsErrorCodeToErrorTypeOverride :: "(string \<times> ErrorType) list"

definition new_Err_Builder :: Err_Builder where
  "new_Err_Builder =
     \<lparr>eb_message = None, eb_errorType = None, eb_awsError = None,
      awsErrorCodeToErrorTypeOverride = []\<rparr>"

definition withAwsError :: "AWSError \<Rightarrow> Err_Builder \<Rightarrow> Err_Builder" where
  "withAwsError e b = b\<lparr>eb_awsError := Some e\<rparr>"

definition withErrorType :: "ErrorType \<Rightarrow> Err_Builder \<Rightarrow> Err_Builder" where
  "withErrorType t b = b\<lparr>eb_errorType := Some t\<rparr>"

definition withMessage :: "string \<Rightarrow> Err_Builder \<Rightarrow> Err_Builder" where
  "withMessage m b = b\<lparr>eb_message := Some m\<rparr>"

definition withAwsErrorCodeToErrorTypeOverride ::
    "(string \<times> ErrorType) list \<Rightarrow> Err_Builder \<Rightarrow> Err_Builder" where
  "withAwsErrorCodeToErrorTypeOverride override b =
     b\<lparr>awsErrorCodeToErrorTypeOverride :=
         Object_assign [] [awsErrorCodeToErrorTypeOverride b, override]\<rparr>"

definition validation_message :: string where
  "validation_message =
     ''Both errorType and message have to be supplied when no AWSError provided''"

text \<open>\<open>if (!this.awsError && !(this.errorType && this.message)) throw ...\<close>\<close>

definition Err_Builder_validate :: "Err_Builder \<Rightarrow> js_error + unit" where
  "Err_Builder_validate b =
     (if eb_awsError b = None \<and>
         \<not> (truthy_opt (\<lambda>t. truthy_number (ErrorType_value t)) (eb_errorType b) \<and>
            truthy_opt truthy_string (eb_message b))
      then Inl (Error validation_message)
      else Inr ())"

text \<open>The \<open>switch\<close> of \<open>build\<close> on the backend status. Its default branch is
  \<open>this.awsErrorCodeToErrorTypeOverride[this.awsError.code] || ErrorType.BadRequest\<close>:
  the table is a plain object, so the lookup follows the prototype chain, and \<open>||\<close>
  keeps whatever truthy value it finds; an inherited member is truthy.\<close>

definition classify :: "(string \<times> ErrorType) list \<Rightarrow> AWSError \<Rightarrow> status_code" where
  "classify override e =
     (if aws_statusCode e = 503 then Status ServiceUnavailable
      else if aws_statusCode e = 500 then Status InternalServerError
      else (case js_get override (aws_code e) of
              Own t \<Rightarrow> if truthy_number (ErrorType_value t) then Status t else Status BadRequest
            | Inherited name \<Rightarrow> Member name
            | Undefined \<Rightarrow> Status BadRequest))"

text \<open>\<open>build\<close>: validate, then the backend branch or the explicit branch. With no
  backend error, \<open>validate\<close> has thrown unless both fields are set, so the last case
  only repeats its throw.\<close>

definition Err_Builder_build :: "Err_Builder \<Rightarrow> js_error + Err" where
  "Err_Builder_build b =
     (case Err_Builder_validate b of
        Inl x \<Rightarrow> Inl x
      | Inr _ \<Rightarrow>
          (case eb_awsError b of
             Some e \<Rightarrow>
               (let errorType = classify (awsErrorCodeToErrorTypeOverride b) e
                in Inr \<lparr>isAwsError = True,
                        err_defaultStatusCode = errorType,
                        err_message = aws_message e,
                        errorStatusCodeRange = determineErrorStatusRange errorType,
                        awsError = Some e\<rparr>)
           | None \<Rightarrow>
               (case (eb_errorType b, eb_message b) of
                  (Some t, Some m) \<Rightarrow>
                    Inr \<lparr>isAwsError = False,
                         err_defaultStatusCode = Status t,
                         err_message = m,
                         errorStatusCodeRange = determineErrorStatusRange (Status t),
                         awsError = None\<rparr>
                | _ \<Rightarrow> Inl (Error validation_message))))"

record 'a Ok =
  ok_defaultStatusCode :: SuccessType
  ok_data :: "'a option"

record 'a Ok_Builder =
  ob_data :: "'a option"
  ob_defaultStatusCode :: "SuccessType option"

definition new_Ok_Builder :: "'a Ok_Builder" where
  "new_Ok_Builder = \<lparr>ob_data = None, ob_defaultStatusCode = None\<rparr>"

definition withData :: "'a option \<Rightarrow> 'a Ok_Builder \<Rightarrow> 'a Ok_Builder" where
  "withData d b = b\<lparr>ob_data := d\<rparr>"

definition withDefaultStatusCode :: "SuccessType \<Rightarrow> 'a Ok_Builder \<Rightarrow> 'a Ok_Builder" where
  "withDefaultStatusCode c b = b\<lparr>ob_defaultStatusCode := Some c\<rparr>"

text \<open>\<open>if (!this.defaultStatusCode) throw ...\<close>\<close>

definition Ok_Builder_validate :: "'a Ok_Builder \<Rightarrow> js_error + unit" where
  "Ok_Builder_validate b =
     (if \<not> truthy_opt (\<lambda>c. truthy_number (SuccessType_value c)) (ob_defaultStatusCode b)
      then Inl (Error ''defaultStatusCode has to be set'')
      else Inr ())"

definition Ok_Builder_build :: "'a Ok_Builder \<Rightarrow> js_error + 'a Ok" where
  "Ok_Builder_build b =
     (case Ok_Builder_validate b of
        Inl x \<Rightarrow> Inl x
      | Inr _ \<Rightarrow>
          (case ob_defaultStatusCode b of
             Some c \<Rightarrow> Inr \<lparr>ok_defaultStatusCode = c, ok_data = ob_data b\<rparr>
           | None \<Rightarrow> Inl (Error ''defaultStatusCode has to be set'')))"


section \<open>utils.ts: the update-expression builder\<close>

record IDynamoUpdateArgs =
  UpdateExpression :: string
  ExpressionAttributeValues :: js_object

text \<open>The \<open>for ... of Object.entries(data)\<close> loop: each entry pushes its clause onto
  \<open>updateExpression\<close> and assigns its value under the key prefixed with a colon.\<close>

fun parse_entries :: "js_object \<Rightarrow> string list \<times> js_object \<Rightarrow> string list \<times> js_object" where
  "parse_entries [] acc = acc"
| "parse_entries ((key, value) # rest) (updateExpression, values) =
     parse_entries rest
       (updateExpression @ [key @ '' = :'' @ key],
        AList.update ('':'' @ key) value values)"

definition parseDynamoUpdateArgs :: "js_object \<Rightarrow> IDynamoUpdateArgs" where
  "parseDynamoUpdateArgs data =
     (case parse_entries data ([], []) of
        (updateExpression, values) \<Rightarrow>
          \<lparr>UpdateExpression = ''SET '' @ join '','' updateExpression,
           ExpressionAttributeValues = values\<rparr>)"


section \<open>The collaborator: the DynamoDB service behind the SDK\<close>

text \<open>
  The client talks to the service through \<open>dynamodb.describeTable\<close> and the document
  client's \<open>get\<close>, \<open>put\<close>, \<open>delete\<close> and \<open>update\<close>. Each takes a parameter object and
  a callback \<open>(e, d)\<close>. A request is the parameter object the client passes, field by
  field; an answer is either the \<open>AWSError\<close> or the output object, of which the client
  reads \<open>d.Table.KeySchema\<close>, \<open>d.Item\<close> and \<open>d.Attributes\<close>. The service is any
  function from a request and its own state to an answer and a new state.
\<close>

datatype store_op =
    DescribeTable string
      \<comment> \<open>\<open>TableName\<close>\<close>
  | DocGet string js_object "string option"
      \<comment> \<open>\<open>TableName\<close>, \<open>Key\<close>, \<open>ProjectionExpression\<close>\<close>
  | DocPut string js_object string
      \<comment> \<open>\<open>TableName\<close>, \<open>Item\<close>, \<open>ConditionExpression\<close>\<close>
  | DocDelete string js_object
      \<comment> \<open>\<open>TableName\<close>, \<open>Key\<close>\<close>
  | DocUpdate string js_object string string string js_object
      \<comment> \<open>\<open>TableName\<close>, \<open>Key\<close>, \<open>ConditionExpression\<close>, \<open>ReturnValues\<close>,
         \<open>UpdateExpression\<close>, \<open>ExpressionAttributeValues\<close>\<close>

record KeySchemaElement =
  AttributeName :: string
  KeyType :: string

record Output =
  Table_KeySchema :: "KeySchemaElement list option"
  Item :: "js_object option"
  Attributes :: "js_object option"

type_synonym 's dynamo = "store_op \<Rightarrow> 's \<Rightarrow> (AWSError + Output) \<times> 's"


section \<open>client.ts: the verb dispatcher\<close>

type_synonym Id = js_object

record RestOnDynamoClient =
  tableName :: string
  keys :: "string list option"

definition new_RestOnDynamoClient :: "string \<Rightarrow> RestOnDynamoClient" where
  "new_RestOnDynamoClient name = \<lparr>tableName = name, keys = None\<rparr>"

text \<open>The client, the service's state and the log of the requests sent so far, oldest
  first.\<close>

record 's world =
  client :: RestOnDynamoClient
  store :: 's
  issued :: "store_op list"

definition send :: "'s dynamo \<Rightarrow> store_op \<Rightarrow> 's world \<Rightarrow> (AWSError + Output) \<times> 's world" where
  "send d request w =
     (case d request (store w) of
        (answer, s') \<Rightarrow> (answer, w\<lparr>store := s', issued := issued w @ [request]\<rparr>))"

text \<open>
  What a verb call has done once its request has been answered: the state of the promise
  inside the returned \<open>Result\<close>, the invocations of the caller's callback with their
  \<open>(error, data)\<close> arguments, and the world it leaves. \<open>Inl\<close> of a call is a JavaScript
  error thrown on the way, which is not an \<open>Err\<close>.
\<close>

datatype 'a promise = Pending | Fulfilled 'a | Rejected Err

record 's call =
  promise :: "js_object Ok promise"
  callbacks :: "(Err option \<times> js_object Ok option) list"
  after :: "'s world"

text \<open>\<open>callback ? callback(err, null) : rej(err)\<close> and
  \<open>callback ? callback(null, ok) : res(ok)\<close>; the flag says whether a callback was
  supplied.\<close>

definition reject_or_callback :: "bool \<Rightarrow> 's world \<Rightarrow> Err \<Rightarrow> 's call" where
  "reject_or_callback callback w err =
     (if callback then \<lparr>promise = Pending, callbacks = [(Some err, None)], after = w\<rparr>
      else \<lparr>promise = Rejected err, callbacks = [], after = w\<rparr>)"

definition resolve_or_callback :: "bool \<Rightarrow> 's world \<Rightarrow> js_object Ok \<Rightarrow> 's call" where
  "resolve_or_callback callback w ok =
     (if callback then \<lparr>promise = Pending, callbacks = [(None, Some ok)], after = w\<rparr>
      else \<lparr>promise = Fulfilled ok, callbacks = [], after = w\<rparr>)"

text \<open>\<open>keySchemaSync\<close>: with no cached keys, describe the table and either reject with
  the classified failure or cache the attribute names; with cached keys, resolve at once.
  Reading \<open>d.Table.KeySchema\<close> from an output without it throws.\<close>

definition keySchemaSync :: "'s dynamo \<Rightarrow> 's world \<Rightarrow> js_error + (Err + unit) \<times> 's world" where
  "keySchemaSync d w =
     (case keys (client w) of
        None \<Rightarrow>
          (case send d (DescribeTable (tableName (client w))) w of
             (Inl e, w1) \<Rightarrow>
               map_sum (\<lambda>x. x) (\<lambda>err. (Inl err, w1))
                 (Err_Builder_build (withAwsError e new_Err_Builder))
           | (Inr out, w1) \<Rightarrow>
               (case Table_KeySchema out of
                  None \<Rightarrow> Inl (TypeError ''Cannot read property of undefined'')
                | Some schema \<Rightarrow>
                    Inr (Inr (),
                         w1\<lparr>client := (client w1)\<lparr>keys := Some (map AttributeName schema)\<rparr>\<rparr>)))
      | Some _ \<Rightarrow> Inr (Inr (), w))"

text \<open>\<open>this.keySchemaSync().then(() => new Promise(...))\<close>: a rejected
  \<open>keySchemaSync\<close> rejects the chained promise and the body never runs.\<close>

definition then_promise ::
    "js_error + (Err + unit) \<times> 's world \<Rightarrow> ('s world \<Rightarrow> js_error + 's call) \<Rightarrow> js_error + 's call" where
  "then_promise sync body =
     (case sync of
        Inl x \<Rightarrow> Inl x
      | Inr (Inl err, w) \<Rightarrow> Inr \<lparr>promise = Rejected err, callbacks = [], after = w\<rparr>
      | Inr (Inr _, w) \<Rightarrow> body w)"

text \<open>The three getters read \<open>this.keys\<close>; on an unset \<open>keys\<close> they throw.\<close>

definition keyNotExistConditionalExpression :: "RestOnDynamoClient \<Rightarrow> js_error + string" where
  "keyNotExistConditionalExpression c =
     (case keys c of
        None \<Rightarrow> Inl (TypeError ''Cannot read property of undefined'')
      | Some ks \<Rightarrow>
          Inr (join '' AND '' (map (\<lambda>keyName. ''attribute_not_exists('' @ keyName @ '')'') ks)))"

definition keyExistConditionalExpression :: "RestOnDynamoClient \<Rightarrow> js_error + string" where
  "keyExistConditionalExpression c =
     (case keys c of
        None \<Rightarrow> Inl (TypeError ''Cannot read property of undefined'')
      | Some ks \<Rightarrow>
          Inr (join '' AND '' (map (\<lambda>keyName. ''attribute_exists('' @ keyName @ '')'') ks)))"

definition keyProjectionExpression :: "RestOnDynamoClient \<Rightarrow> js_error + string" where
  "keyProjectionExpression c =
     (case keys c of
        None \<Rightarrow> Inl (TypeError ''Cannot read property of undefined'')
      | Some ks \<Rightarrow> Inr (join '','' ks))"

text \<open>The parameter object each verb passes to the document client.\<close>

definition get_params :: "RestOnDynamoClient \<Rightarrow> Id \<Rightarrow> js_error + store_op" where
  "get_params c item_id = Inr (DocGet (tableName c) item_id None)"

definition post_params :: "RestOnDynamoClient \<Rightarrow> js_object \<Rightarrow> js_error + store_op" where
  "post_params c item =
     map_sum (\<lambda>x. x) (DocPut (tableName c) item) (keyNotExistConditionalExpression c)"

definition put_params :: "RestOnDynamoClient \<Rightarrow> js_object \<Rightarrow> js_error + store_op" where
  "put_params c item =
     map_sum (\<lambda>x. x) (DocPut (tableName c) item) (keyExistConditionalExpression c)"

definition delete_params :: "RestOnDynamoClient \<Rightarrow> Id \<Rightarrow> js_error + store_op" where
  "delete_params c item_id = Inr (DocDelete (tableName c) item_id)"

definition patch_params :: "RestOnDynamoClient \<Rightarrow> Id \<Rightarrow> js_object \<Rightarrow> js_error + store_op" where
  "patch_params c item_id data =
     map_sum (\<lambda>x. x)
       (\<lambda>cond. DocUpdate (tableName c) item_id cond ''ALL_NEW''
                 (UpdateExpression (parseDynamoUpdateArgs data))
                 (ExpressionAttributeValues (parseDynamoUpdateArgs data)))
       (keyExistConditionalExpression c)"

definition head_params :: "RestOnDynamoClient \<Rightarrow> Id \<Rightarrow> js_error + store_op" where
  "head_params c item_id =
     map_sum (\<lambda>x. x) (\<lambda>projection. DocGet (tableName c) item_id (Some projection))
       (keyProjectionExpression c)"

text \<open>The arrow function \<open>(e, d) => {...}\<close> each verb hands to the document client,
  as a function of the answer; \<open>w\<close> is the world at the time it runs.\<close>

definition get_callback :: "bool \<Rightarrow> 's world \<Rightarrow> AWSError + Output \<Rightarrow> js_error + 's call" where
  "get_callback callback w answer =
     (case answer of
        Inl e \<Rightarrow>
          map_sum (\<lambda>x. x) (reject_or_callback callback w)
            (Err_Builder_build (withAwsError e new_Err_Builder))
      | Inr out \<Rightarrow>
          (case Item out of
             Some item \<Rightarrow>
               map_sum (\<lambda>x. x) (resolve_or_callback callback w)
                 (Ok_Builder_build
                    (withData (Some item) (withDefaultStatusCode Ok new_Ok_Builder)))
           | None \<Rightarrow>
               map_sum (\<lambda>x. x) (reject_or_callback callback w)
                 (Err_Builder_build
                    (withMessage ''Key does not exist''
                       (withErrorType NotFound new_Err_Builder)))))"

definition post_callback ::
    "js_object \<Rightarrow> bool \<Rightarrow> 's world \<Rightarrow> AWSError + Output \<Rightarrow> js_error + 's call" where
  "post_callback item callback w answer =
     (case answer of
        Inl e \<Rightarrow>
          map_sum (\<lambda>x. x) (reject_or_callback callback w)
            (Err_Builder_build
               (withAwsErrorCodeToErrorTypeOverride
                  [(ConditionalCheckFailedException, Conflict)]
                  (withAwsError e new_Err_Builder)))
      | Inr _ \<Rightarrow>
          map_sum (\<lambda>x. x) (resolve_or_callback callback w)
            (Ok_Builder_build
               (withDefaultStatusCode Created (withData (Some item) new_Ok_Builder))))"

definition put_callback ::
    "js_object \<Rightarrow> bool \<Rightarrow> 's world \<Rightarrow> AWSError + Output \<Rightarrow> js_error + 's call" where
  "put_callback item callback w answer =
     (case answer of
        Inl e \<Rightarrow>
          map_sum (\<lambda>x. x) (reject_or_callback callback w)
            (Err_Builder_build
               (withAwsErrorCodeToErrorTypeOverride
                  [(ConditionalCheckFailedException, NotFound)]
                  (withAwsError e new_Err_Builder)))
      | Inr _ \<Rightarrow>
          map_sum (\<lambda>x. x) (resolve_or_callback callback w)
            (Ok_Builder_build
               (withDefaultStatusCode Ok (withData (Some item) new_Ok_Builder))))"

definition delete_callback :: "bool \<Rightarrow> 's world \<Rightarrow> AWSError + Output \<Rightarrow> js_error + 's call" where
  "delete_callback callback w answer =
     (case answer of
        Inl e \<Rightarrow>
          map_sum (\<lambda>x. x) (reject_or_callback callback w)
            (Err_Builder_build (withAwsError e new_Err_Builder))
      | Inr _ \<Rightarrow>
          map_sum (\<lambda>x. x) (resolve_or_callback callback w)
            (Ok_Builder_build (withDefaultStatusCode NoContent new_Ok_Builder)))"

definition patch_callback :: "bool \<Rightarrow> 's world \<Rightarrow> AWSError + Output \<Rightarrow> js_error + 's call" where
  "patch_callback callback w answer =
     (case answer of
        Inl e \<Rightarrow>
          map_sum (\<lambda>x. x) (reject_or_callback callback w)
            (Err_Builder_build
               (withAwsErrorCodeToErrorTypeOverride
                  [(ConditionalCheckFailedException, NotFound)]
                  (withAwsError e new_Err_Builder)))
      | Inr out \<Rightarrow>
          map_sum (\<lambda>x. x) (resolve_or_callback callback w)
            (Ok_Builder_build
               (withDefaultStatusCode Ok (withData (Attributes out) new_Ok_Builder))))"

definition head_callback :: "bool \<Rightarrow> 's world \<Rightarrow> AWSError + Output \<Rightarrow> js_error + 's call" where
  "head_callback callback w answer =
     (case answer of
        Inl e \<Rightarrow>
          map_sum (\<lambda>x. x) (reject_or_callback callback w)
            (Err_Builder_build (withAwsError e new_Err_Builder))
      | Inr out \<Rightarrow>
          (case Item out of
             Some item \<Rightarrow>
               map_sum (\<lambda>x. x) (resolve_or_callback callback w)
                 (Ok_Builder_build (withDefaultStatusCode NoContent new_Ok_Builder))
           | None \<Rightarrow>
               map_sum (\<lambda>x. x) (reject_or_callback callback w)
                 (Err_Builder_build
                    (withMessage ''Key not found''
                       (withErrorType NotFound new_Err_Builder)))))"

text \<open>The document client's call: the parameter object is built (a getter may throw),
  the request is sent, and the arrow function runs on the answer.\<close>

definition docClient ::
    "'s dynamo \<Rightarrow> js_error + store_op \<Rightarrow> ('s world \<Rightarrow> AWSError + Output \<Rightarrow> js_error + 's call) \<Rightarrow>
     's world \<Rightarrow> js_error + 's call" where
  "docClient d params on_answer w =
     (case params of
        Inl x \<Rightarrow> Inl x
      | Inr request \<Rightarrow> (case send d request w of (answer, w') \<Rightarrow> on_answer w' answer))"

text \<open>The six verbs: \<open>new Result(this.keySchemaSync().then(() => new Promise(...)))\<close>.\<close>

definition get :: "'s dynamo \<Rightarrow> Id \<Rightarrow> bool \<Rightarrow> 's world \<Rightarrow> js_error + 's call" where
  "get d item_id callback w =
     then_promise (keySchemaSync d w)
       (\<lambda>w1. docClient d (get_params (client w1) item_id) (get_callback callback) w1)"

definition post :: "'s dynamo \<Rightarrow> Id \<Rightarrow> js_object \<Rightarrow> bool \<Rightarrow> 's world \<Rightarrow> js_error + 's call" where
  "post d item_id data callback w =
     (let item = Object_assign [] [data, item_id] in
      then_promise (keySchemaSync d w)
        (\<lambda>w1. docClient d (post_params (client w1) item) (post_callback item callback) w1))"

definition put :: "'s dynamo \<Rightarrow> Id \<Rightarrow> js_object \<Rightarrow> bool \<Rightarrow> 's world \<Rightarrow> js_error + 's call" where
  "put d item_id data callback w =
     (let item = Object_assign [] [data, item_id] in
      then_promise (keySchemaSync d w)
        (\<lambda>w1. docClient d (put_params (client w1) item) (put_callback item callback) w1))"

definition delete :: "'s dynamo \<Rightarrow> Id \<Rightarrow> bool \<Rightarrow> 's world \<Rightarrow> js_error + 's call" where
  "delete d item_id callback w =
     then_promise (keySchemaSync d w)
       (\<lambda>w1. docClient d (delete_params (client w1) item_id) (delete_callback callback) w1)"

definition patch :: "'s dynamo \<Rightarrow> Id \<Rightarrow> js_object \<Rightarrow> bool \<Rightarrow> 's world \<Rightarrow> js_error + 's call" where
  "patch d item_id data callback w =
     then_promise (keySchemaSync d w)
       (\<lambda>w1. docClient d (patch_params (client w1) item_id data) (patch_callback callback) w1)"

definition head :: "'s dynamo \<Rightarrow> Id \<Rightarrow> bool \<Rightarrow> 's world \<Rightarrow> js_error + 's call" where
  "head d item_id callback w =
     then_promise (keySchemaSync d w)
       (\<lambda>w1. docClient d (head_params (client w1) item_id) (head_callback callback) w1)"

text \<open>A verb call as a value, to speak of all six at once: the call itself, the
  parameter object it builds and the arrow function it passes.\<close>

datatype verb_call =
    Get Id | Head Id | Post Id js_object | Put Id js_object | Patch Id js_object | Delete Id

fun invoke :: "'s dynamo \<Rightarrow> verb_call \<Rightarrow> bool \<Rightarrow> 's world \<Rightarrow> js_error + 's call" where
  "invoke d (Get item_id) callback w = get d item_id callback w"
| "invoke d (Head item_id) callback w = head d item_id callback w"
| "invoke d (Post item_id data) callback w = post d item_id data callback w"
| "invoke d (Put item_id data) callback w = put d item_id data callback w"
| "invoke d (Patch item_id data) callback w = patch d item_id data callback w"
| "invoke d (Delete item_id) callback w = delete d item_id callback w"

fun params_of :: "RestOnDynamoClient \<Rightarrow> verb_call \<Rightarrow> js_error + store_op" where
  "params_of c (Get item_id) = get_params c item_id"
| "params_of c (Head item_id) = head_params c item_id"
| "params_of c (Post item_id data) = post_params c (Object_assign [] [data, item_id])"
| "params_of c (Put item_id data) = put_params c (Object_assign [] [data, item_id])"
| "params_of c (Patch item_id data) = patch_params c item_id data"
| "params_of c (Delete item_id) = delete_params c item_id"

fun callback_of ::
    "verb_call \<Rightarrow> bool \<Rightarrow> 's world \<Rightarrow> AWSError + Output \<Rightarrow> js_error + 's call" where
  "callback_of (Get item_id) = get_callback"
| "callback_of (Head item_id) = head_callback"
| "callback_of (Post item_id data) = post_callback (Object_assign [] [data, item_id])"
| "callback_of (Put item_id data) = put_callback (Object_assign [] [data, item_id])"
| "callback_of (Patch item_id data) = patch_callback"
| "callback_of (Delete item_id) = delete_callback"

text \<open>Calls made one after the other, each answered before the next is made.\<close>

fun run :: "'s dynamo \<Rightarrow> (verb_call \<times> bool) list \<Rightarrow> 's world \<Rightarrow> js_error + 's world" where
  "run d [] w = Inr w"
| "run d ((vc, callback) # rest) w =
     (case invoke d vc callback w of
        Inl x \<Rightarrow> Inl x
      | Inr c \<Rightarrow> run d rest (after c))"

text \<open>The number of schema lookups in a log.\<close>

definition lookups :: "store_op list \<Rightarrow> nat" where
  "lookups log = length (filter (\<lambda>request. case request of DescribeTable _ \<Rightarrow> True | _ \<Rightarrow> False) log)"


section \<open>A table in memory standing for the service\<close>

text \<open>
  The service is not part of the repository. To run the client on concrete inputs, one
  table held in memory answers the requests the way the DynamoDB service does for the
  requests this client sends (it is the table the integration tests expect): an unknown
  table is a \<open>ResourceNotFoundException\<close>, a key whose attribute names differ from the key
  schema is a \<open>ValidationException\<close>, a failed condition is a
  \<open>ConditionalCheckFailedException\<close>, all with status 400; a delete of an absent item
  succeeds. It understands the two condition expressions the client builds and applies an
  update by assigning every bound value to the attribute its binding names; a projection
  is not applied. The theorems about the client hold for every service; this one only
  supplies concrete runs.
\<close>

record table =
  t_name :: string
  t_schema :: "string list"
  t_items :: "js_object list"

definition failure :: "string \<Rightarrow> string \<Rightarrow> AWSError" where
  "failure c m = \<lparr>aws_code = c, aws_message = m, aws_statusCode = 400\<rparr>"

definition no_output :: Output where
  "no_output = \<lparr>Table_KeySchema = None, Item = None, Attributes = None\<rparr>"

definition key_matches_schema :: "js_object \<Rightarrow> string list \<Rightarrow> bool" where
  "key_matches_schema key schema =
     (list_all (\<lambda>k. k \<in> set schema) (map fst key) \<and>
      list_all (\<lambda>k. k \<in> set (map fst key)) schema)"

definition has_key :: "js_object \<Rightarrow> js_object \<Rightarrow> bool" where
  "has_key key item = list_all (\<lambda>(k, v). map_of item k = Some v) key"

definition condition_holds :: "table \<Rightarrow> string \<Rightarrow> js_object option \<Rightarrow> bool" where
  "condition_holds t cond existing =
     (let c = \<lparr>tableName = t_name t, keys = Some (t_schema t)\<rparr> in
      if keyNotExistConditionalExpression c = Inr cond then existing = None
      else if keyExistConditionalExpression c = Inr cond then existing \<noteq> None
      else False)"

fun table_service :: "table dynamo" where
  "table_service (DescribeTable name) t =
     (if name \<noteq> t_name t
      then (Inl (failure ResourceNotFoundException ''Requested resource not found''), t)
      else (Inr (no_output\<lparr>Table_KeySchema :=
                   Some (map2 (\<lambda>k ty. \<lparr>AttributeName = k, KeyType = ty\<rparr>)
                           (t_schema t) [''HASH'', ''RANGE''])\<rparr>), t))"
| "table_service (DocGet name key projection) t =
     (if name \<noteq> t_name t
      then (Inl (failure ResourceNotFoundException ''Requested resource not found''), t)
      else if \<not> key_matches_schema key (t_schema t)
      then (Inl (failure ValidationException
                   ''The provided key element does not match the schema''), t)
      else (Inr (no_output\<lparr>Item := find (has_key key) (t_items t)\<rparr>), t))"
| "table_service (DocPut name item cond) t =
     (let key = filter (\<lambda>(k, v). k \<in> set (t_schema t)) item in
      if name \<noteq> t_name t
      then (Inl (failure ResourceNotFoundException ''Requested resource not found''), t)
      else if \<not> key_matches_schema key (t_schema t)
      then (Inl (failure ValidationException
                   ''One or more parameter values were invalid: Missing the key''), t)
      else if \<not> condition_holds t cond (find (has_key key) (t_items t))
      then (Inl (failure ConditionalCheckFailedException ''The conditional request failed''), t)
      else (Inr no_output,
            t\<lparr>t_items := item # filter (\<lambda>other. \<not> has_key key other) (t_items t)\<rparr>))"
| "table_service (DocDelete name key) t =
     (if name \<noteq> t_name t
      then (Inl (failure ResourceNotFoundException ''Requested resource not found''), t)
      else if \<not> key_matches_schema key (t_schema t)
      then (Inl (failure ValidationException
                   ''The provided key element does not match the schema''), t)
      else (Inr no_output,
            t\<lparr>t_items := filter (\<lambda>other. \<not> has_key key other) (t_items t)\<rparr>))"
| "table_service (DocUpdate name key cond returnValues updateExpression values) t =
     (if name \<noteq> t_name t
      then (Inl (failure ResourceNotFoundException ''Requested resource not found''), t)
      else if \<not> key_matches_schema key (t_schema t)
      then (Inl (failure ValidationException
                   ''The provided key element does not match the schema''), t)
      else if \<not> condition_holds t cond (find (has_key key) (t_items t))
      then (Inl (failure ConditionalCheckFailedException ''The conditional request failed''), t)
      else (case find (has_key key) (t_items t) of
              None \<Rightarrow>
                (Inl (failure ConditionalCheckFailedException
                        ''The conditional request failed''), t)
            | Some existing \<Rightarrow>
                (let item = Object_assign existing [map (\<lambda>(k, v). (drop 1 k, v)) values] in
                 (Inr (no_output\<lparr>Attributes := Some item\<rparr>),
                  t\<lparr>t_items := item # filter (\<lambda>other. \<not> has_key key other) (t_items t)\<rparr>))))"

text \<open>The table of the integration tests: named \<open>test\<close>, with the single key \<open>id\<close>.\<close>

definition test_table :: "js_object list \<Rightarrow> table" where
  "test_table items = \<lparr>t_name = ''test'', t_schema = [''id''], t_items = items\<rparr>"

definition fresh :: "string \<Rightarrow> 's \<Rightarrow> 's world" where
  "fresh name s = \<lparr>client = new_RestOnDynamoClient name, store = s, issued = []\<rparr>"

text \<open>The same table seen by a client that has already cached the key schema.\<close>

definition resolved :: "js_object list \<Rightarrow> table world" where
  "resolved items =
     \<lparr>client = \<lparr>tableName = ''test'', keys = Some [''id'']\<rparr>,
      store = test_table items, issued = []\<rparr>"

definition fake_aws_error :: "string \<Rightarrow> int \<Rightarrow> AWSError" where
  "fake_aws_error c s = \<lparr>aws_code = c, aws_message = ''fake aws error message'', aws_statusCode = s\<rparr>"


lemma ErrorType_value_truthy: "truthy_number (ErrorType_value t)"
  by (cases t) (simp_all add: truthy_number_def)

section \<open>The error classifier and the builders' contracts\<close>

lemma Err_Builder_validate_backend:
  "eb_awsError b = Some e \<Longrightarrow> Err_Builder_validate b = Inr ()"
  by (simp add: Err_Builder_validate_def)

lemma Err_Builder_build_backend:
  "eb_awsError b = Some e \<Longrightarrow>
   Err_Builder_build b =
     Inr \<lparr>isAwsError = True,
          err_defaultStatusCode = classify (awsErrorCodeToErrorTypeOverride b) e,
          err_message = aws_message e,
          errorStatusCodeRange =
            determineErrorStatusRange (classify (awsErrorCodeToErrorTypeOverride b) e),
          awsError = Some e\<rparr>"
  by (simp add: Err_Builder_build_def Err_Builder_validate_backend Let_def)

text \<open>The classifier in closed form: 503, then 500, then the table's own entry, then an
  inherited member, and \<open>BadRequest\<close> only for a code found nowhere.\<close>

lemma classify_lookup:
  "classify override e =
     (if aws_statusCode e = 503 then Status ServiceUnavailable
      else if aws_statusCode e = 500 then Status InternalServerError
      else (case map_of override (aws_code e) of
              Some t \<Rightarrow> Status t
            | None \<Rightarrow>
                if aws_code e \<in> set Object_prototype_names then Member (aws_code e)
                else Status BadRequest))"
  by (simp add: classify_def js_get_def ErrorType_value_truthy split: option.split)

text \<open>For every failure code that is not the name of a member of \<open>Object.prototype\<close>, an
  \<open>Err\<close> built from a backend failure has the code 503 for status 503, else 500 for
  status 500, else the override table's entry, and 400 when the table has none.\<close>

lemma Err_build_backend_classification:
  assumes "eb_awsError b = Some e" and "aws_code e \<notin> set Object_prototype_names"
  shows "\<exists>err. Err_Builder_build b = Inr err \<and> isAwsError err \<and> awsError err = Some e \<and>
           err_defaultStatusCode err =
             Status (if aws_statusCode e = 503 then ServiceUnavailable
                     else if aws_statusCode e = 500 then InternalServerError
                     else (case map_of (awsErrorCodeToErrorTypeOverride b) (aws_code e) of
                             Some t \<Rightarrow> t
                           | None \<Rightarrow> BadRequest))"
  using Err_Builder_build_backend [OF assms(1)] assms(2)
  by (simp add: classify_lookup split: option.split)

text \<open>
  C4. The builder means to give an \<open>Err\<close> built from a backend failure the code 503 for
  status 503, else 500 for status 500, else the override table's entry for the failure
  code, and 400 when the table has none. It reads the table with \<open>table[code] || 400\<close>
  on a plain object, so a failure code that names a member of \<open>Object.prototype\<close> finds
  that member: for the failure code \<open>constructor\<close> with status 400 and an empty override
  table, \<open>build\<close> stores the inherited member as \<open>defaultStatusCode\<close>, and not 400.
\<close>

theorem Err_build_inherited_code:
  "map_of (awsErrorCodeToErrorTypeOverride
             (withAwsError (fake_aws_error ''constructor'' 400) new_Err_Builder))
     ''constructor'' = None \<and>
   Err_Builder_build (withAwsError (fake_aws_error ''constructor'' 400) new_Err_Builder) =
     Inr \<lparr>isAwsError = True, err_defaultStatusCode = Member ''constructor'',
          err_message = ''fake aws error message'', errorStatusCodeRange = Client,
          awsError = Some (fake_aws_error ''constructor'' 400)\<rparr> \<and>
   Member ''constructor'' \<noteq> Status BadRequest"
  by (simp add: Err_Builder_build_def Err_Builder_validate_def withAwsError_def
        new_Err_Builder_def fake_aws_error_def classify_def js_get_def
        Object_prototype_names_def determineErrorStatusRange_def Let_def)

text \<open>
  C5. Every \<open>Err\<close> the builder produces, from a backend failure or from an explicit type
  and message, has its range computed from its own status code by
  \<open>determineErrorStatusRange\<close>: the range is \<open>Server\<close> exactly when the code is at
  least 500, and \<open>Client\<close> otherwise; for a code that is an \<open>ErrorType\<close>, \<open>Client\<close>
  exactly when it is below 500.
\<close>

theorem Err_build_range_derived:
  assumes "Err_Builder_build b = Inr err"
  shows "errorStatusCodeRange err = determineErrorStatusRange (err_defaultStatusCode err) \<and>
         (errorStatusCodeRange err = Server) = status_at_least (err_defaultStatusCode err) 500 \<and>
         (errorStatusCodeRange err = Client) =
           (\<not> status_at_least (err_defaultStatusCode err) 500) \<and>
         (case err_defaultStatusCode err of
            Status t \<Rightarrow>
              (errorStatusCodeRange err = Server) = (ErrorType_value t \<ge> 500) \<and>
              (errorStatusCodeRange err = Client) = (ErrorType_value t < 500)
          | Member name \<Rightarrow> errorStatusCodeRange err = Client)"
proof -
  have derived: "errorStatusCodeRange err =
      determineErrorStatusRange (err_defaultStatusCode err)"
    using assms
    by (auto simp: Err_Builder_build_def Let_def split: sum.splits option.splits)
  show ?thesis
    unfolding derived
    by (cases "err_defaultStatusCode err") (auto simp: determineErrorStatusRange_def)
qed

theorem Err_build_range_derived_witness:
  "Err_Builder_build (withAwsError (fake_aws_error ValidationException 503) new_Err_Builder) =
     Inr \<lparr>isAwsError = True, err_defaultStatusCode = Status ServiceUnavailable,
          err_message = ''fake aws error message'', errorStatusCodeRange = Server,
          awsError = Some (fake_aws_error ValidationException 503)\<rparr> \<and>
   Err_Builder_build (withMessage ''Key not found'' (withErrorType NotFound new_Err_Builder)) =
     Inr \<lparr>isAwsError = False, err_defaultStatusCode = Status NotFound,
          err_message = ''Key not found'', errorStatusCodeRange = Client,
          awsError = None\<rparr>"
proof -
  let ?b1 = "withAwsError (fake_aws_error ValidationException 503) new_Err_Builder"
  let ?b2 = "withMessage ''Key not found'' (withErrorType NotFound new_Err_Builder)"
  obtain e1 where e1: "Err_Builder_build ?b1 = Inr e1"
    and f1: "isAwsError e1" "err_defaultStatusCode e1 = Status ServiceUnavailable"
      "err_message e1 = ''fake aws error message''"
      "awsError e1 = Some (fake_aws_error ValidationException 503)"
    by (simp add: Err_Builder_build_def Err_Builder_validate_def withAwsError_def
          new_Err_Builder_def fake_aws_error_def classify_def Let_def)
  obtain e2 where e2: "Err_Builder_build ?b2 = Inr e2"
    and f2: "\<not> isAwsError e2" "err_defaultStatusCode e2 = Status NotFound"
      "err_message e2 = ''Key not found''" "awsError e2 = None"
    by (simp add: Err_Builder_build_def Err_Builder_validate_def withMessage_def
          withErrorType_def new_Err_Builder_def truthy_number_def truthy_string_def)
  have "errorStatusCodeRange e1 = Server"
    using Err_build_range_derived [OF e1] f1 by (simp add: determineErrorStatusRange_def)
  moreover have "errorStatusCodeRange e2 = Client"
    using Err_build_range_derived [OF e2] f2 by (simp add: determineErrorStatusRange_def)
  ultimately show ?thesis
    using e1 e2 f1 f2 by simp
qed

text \<open>
  C6. \<open>Err.Builder.build()\<close> throws when no backend error was supplied and the error
  type or the message is missing (so also when only one of the two was given), and
  \<open>Ok.Builder.build()\<close> throws when no status code was set; a throw means that no
  instance is returned.
\<close>

theorem builders_reject_incomplete:
  "(eb_awsError b = None \<and> (eb_errorType b = None \<or> eb_message b = None) \<longrightarrow>
      Err_Builder_build b = Inl (Error validation_message)) \<and>
   (ob_defaultStatusCode ob = None \<longrightarrow>
      Ok_Builder_build ob = Inl (Error ''defaultStatusCode has to be set''))"
  by (auto simp: Err_Builder_build_def Err_Builder_validate_def Ok_Builder_build_def
        Ok_Builder_validate_def)

theorem builders_reject_incomplete_witness:
  "Err_Builder_build new_Err_Builder = Inl (Error validation_message) \<and>
   Err_Builder_build (withErrorType BadRequest new_Err_Builder) = Inl (Error validation_message) \<and>
   Err_Builder_build (withMessage ''fake message'' new_Err_Builder) =
     Inl (Error validation_message) \<and>
   Ok_Builder_build (new_Ok_Builder :: js_object Ok_Builder) =
     Inl (Error ''defaultStatusCode has to be set'') \<and>
   Ok_Builder_build (withData (Some []) (new_Ok_Builder :: js_object Ok_Builder)) =
     Inl (Error ''defaultStatusCode has to be set'')"
  using
    builders_reject_incomplete [of new_Err_Builder "new_Ok_Builder :: js_object Ok_Builder"]
    builders_reject_incomplete
      [of "withErrorType BadRequest new_Err_Builder"
          "withData (Some []) (new_Ok_Builder :: js_object Ok_Builder)"]
    builders_reject_incomplete
      [of "withMessage ''fake message'' new_Err_Builder"
          "new_Ok_Builder :: js_object Ok_Builder"]
  by (simp add: new_Err_Builder_def new_Ok_Builder_def withErrorType_def withMessage_def
        withData_def)


section \<open>The update-expression builder\<close>

lemma update_fresh: "k \<notin> fst ` set al \<Longrightarrow> AList.update k v al = al @ [(k, v)]"
  by (induction al) auto

lemma parse_entries_closed:
  "distinct (map fst data) \<Longrightarrow>
   (\<forall>k \<in> fst ` set data. '':'' @ k \<notin> fst ` set values) \<Longrightarrow>
   parse_entries data (ue, values) =
     (ue @ map (\<lambda>(k, v). k @ '' = :'' @ k) data,
      values @ map (\<lambda>(k, v). ('':'' @ k, v)) data)"
proof (induction data arbitrary: ue "values")
  case Nil
  then show ?case by simp
next
  case (Cons p data)
  obtain k v where p: "p = (k, v)" by (cases p)
  have fresh: "'':'' @ k \<notin> fst ` set values"
    using Cons.prems(2) p by simp
  have rest: "\<forall>k' \<in> fst ` set data. '':'' @ k' \<notin> fst ` set (values @ [('':'' @ k, v)])"
    using Cons.prems p by auto
  have upd: "AList.update ('':'' @ k) v values = values @ [('':'' @ k, v)]"
    by (rule update_fresh [OF fresh])
  show ?case
    using Cons.IH [OF _ rest] Cons.prems(1) p upd
    by simp
qed

text \<open>
  C7. For an attribute map with distinct names, given as its entries in enumeration
  order, the builder's clause is \<open>SET\<close> followed by one \<open>name = :name\<close> per entry in
  that order, joined by commas, and its binding map pairs \<open>:name\<close> with each entry's
  value in the same order. On \<open>{key1: "v1", key2: 123, key3: {a: "b"}}\<close> the output is
  exactly \<open>SET key1 = :key1,key2 = :key2,key3 = :key3\<close> with the bindings
  \<open>{":key1": "v1", ":key2": 123, ":key3": {a: "b"}}\<close>. The builder is a function of
  its input, so a fixed input ordering always gives the same output.
\<close>

theorem parseDynamoUpdateArgs_clauses:
  "(distinct (map fst data) \<longrightarrow>
      UpdateExpression (parseDynamoUpdateArgs data) =
        ''SET '' @ join '','' (map (\<lambda>(k, v). k @ '' = :'' @ k) data) \<and>
      ExpressionAttributeValues (parseDynamoUpdateArgs data) =
        map (\<lambda>(k, v). ('':'' @ k, v)) data) \<and>
   parseDynamoUpdateArgs
     [(''key1'', JString ''v1''), (''key2'', JNumber 123),
      (''key3'', JObject [(''a'', JString ''b'')])] =
     \<lparr>UpdateExpression = ''SET key1 = :key1,key2 = :key2,key3 = :key3'',
      ExpressionAttributeValues =
        [('':key1'', JString ''v1''), ('':key2'', JNumber 123),
         ('':key3'', JObject [(''a'', JString ''b'')])]\<rparr>"
proof (intro conjI impI)
  assume d: "distinct (map fst data)"
  have "parse_entries data ([], []) =
     ([] @ map (\<lambda>(k, v). k @ '' = :'' @ k) data, [] @ map (\<lambda>(k, v). ('':'' @ k, v)) data)"
    by (rule parse_entries_closed [OF d]) simp
  then show "UpdateExpression (parseDynamoUpdateArgs data) =
       ''SET '' @ join '','' (map (\<lambda>(k, v). k @ '' = :'' @ k) data)"
    and "ExpressionAttributeValues (parseDynamoUpdateArgs data) =
       map (\<lambda>(k, v). ('':'' @ k, v)) data"
    by (simp_all add: parseDynamoUpdateArgs_def)
next
  show "parseDynamoUpdateArgs
     [(''key1'', JString ''v1''), (''key2'', JNumber 123),
      (''key3'', JObject [(''a'', JString ''b'')])] =
     \<lparr>UpdateExpression = ''SET key1 = :key1,key2 = :key2,key3 = :key3'',
      ExpressionAttributeValues =
        [('':key1'', JString ''v1''), ('':key2'', JNumber 123),
         ('':key3'', JObject [(''a'', JString ''b'')])]\<rparr>"
    by (simp add: parseDynamoUpdateArgs_def)
qed

theorem parseDynamoUpdateArgs_clauses_witness:
  "distinct (map fst [(''attr1'', JString ''value1-patched''), (''attr2'', JString ''value2'')]) \<and>
   UpdateExpression
     (parseDynamoUpdateArgs
        [(''attr1'', JString ''value1-patched''), (''attr2'', JString ''value2'')]) =
     ''SET attr1 = :attr1,attr2 = :attr2'' \<and>
   ExpressionAttributeValues
     (parseDynamoUpdateArgs
        [(''attr1'', JString ''value1-patched''), (''attr2'', JString ''value2'')]) =
     [('':attr1'', JString ''value1-patched''), ('':attr2'', JString ''value2'')]"
  using parseDynamoUpdateArgs_clauses
    [of "[(''attr1'', JString ''value1-patched''), (''attr2'', JString ''value2'')]"]
  by simp


section \<open>The verbs: what is sent and how the answer is classified\<close>

lemma keySchemaSync_cached:
  "keys (client w) = Some ks \<Longrightarrow> keySchemaSync d w = Inr (Inr (), w)"
  by (simp add: keySchemaSync_def)

lemma build_backend_plain:
  "Err_Builder_build (withAwsError e new_Err_Builder) =
     Inr \<lparr>isAwsError = True, err_defaultStatusCode = classify [] e,
          err_message = aws_message e,
          errorStatusCodeRange = determineErrorStatusRange (classify [] e),
          awsError = Some e\<rparr>"
  using Err_Builder_build_backend [of "withAwsError e new_Err_Builder" e]
  by (simp add: withAwsError_def new_Err_Builder_def)

lemma build_backend_override:
  "Err_Builder_build
     (withAwsErrorCodeToErrorTypeOverride [(c, t)] (withAwsError e new_Err_Builder)) =
     Inr \<lparr>isAwsError = True, err_defaultStatusCode = classify [(c, t)] e,
          err_message = aws_message e,
          errorStatusCodeRange = determineErrorStatusRange (classify [(c, t)] e),
          awsError = Some e\<rparr>"
  using Err_Builder_build_backend
    [of "withAwsErrorCodeToErrorTypeOverride [(c, t)] (withAwsError e new_Err_Builder)" e]
  by (simp add: withAwsErrorCodeToErrorTypeOverride_def withAwsError_def new_Err_Builder_def
        Object_assign_def)

lemma build_explicit:
  "m \<noteq> [] \<Longrightarrow>
   Err_Builder_build (withMessage m (withErrorType t new_Err_Builder)) =
     Inr \<lparr>isAwsError = False, err_defaultStatusCode = Status t, err_message = m,
          errorStatusCodeRange = determineErrorStatusRange (Status t),
          awsError = None\<rparr>"
  by (simp add: Err_Builder_build_def Err_Builder_validate_def withMessage_def
        withErrorType_def new_Err_Builder_def ErrorType_value_truthy truthy_string_def)

lemma build_ok:
  "ob_defaultStatusCode b = Some c \<Longrightarrow>
   Ok_Builder_build b = Inr \<lparr>ok_defaultStatusCode = c, ok_data = ob_data b\<rparr>"
  by (cases c) (simp_all add: Ok_Builder_build_def Ok_Builder_validate_def truthy_number_def)

lemma invoke_unfold:
  "invoke d vc callback w =
     then_promise (keySchemaSync d w)
       (\<lambda>w1. docClient d (params_of (client w1) vc) (callback_of vc callback) w1)"
  by (cases vc) (simp_all add: get_def head_def post_def put_def patch_def delete_def Let_def)

lemma keySchemaSync_resolved_keys:
  "keySchemaSync d w = Inr (Inr (), w1) \<Longrightarrow> \<exists>ks. keys (client w1) = Some ks"
  by (auto simp: keySchemaSync_def send_def build_backend_plain
        split: option.splits prod.splits sum.splits)

lemma params_of_resolved:
  "keys c = Some ks \<Longrightarrow> \<exists>request. params_of c vc = Inr request"
  by (cases vc)
     (simp_all add: get_params_def head_params_def post_params_def put_params_def
        patch_params_def delete_params_def keyProjectionExpression_def
        keyNotExistConditionalExpression_def keyExistConditionalExpression_def)

lemma outcome_err:
  "(\<And>callback. f callback = Inr (reject_or_callback callback w err)) \<Longrightarrow>
   (\<exists>err. \<forall>callback. f callback = Inr (reject_or_callback callback w err)) \<or>
   (\<exists>ok. \<forall>callback. f callback = Inr (resolve_or_callback callback w ok))"
  by blast

lemma outcome_ok:
  "(\<And>callback. f callback = Inr (resolve_or_callback callback w ok)) \<Longrightarrow>
   (\<exists>err. \<forall>callback. f callback = Inr (reject_or_callback callback w err)) \<or>
   (\<exists>ok. \<forall>callback. f callback = Inr (resolve_or_callback callback w ok))"
  by blast

lemma callback_of_outcome:
  "(\<exists>err. \<forall>callback. callback_of vc callback w answer = Inr (reject_or_callback callback w err)) \<or>
   (\<exists>ok. \<forall>callback. callback_of vc callback w answer = Inr (resolve_or_callback callback w ok))"
proof (cases answer)
  case (Inl e)
  show ?thesis
    by (cases vc; rule outcome_err)
       (simp_all add: Inl get_callback_def head_callback_def post_callback_def
          put_callback_def patch_callback_def delete_callback_def build_backend_plain
          build_backend_override)
next
  case (Inr out)
  show ?thesis
  proof (cases "Item out")
    case None
    show ?thesis
    proof (cases vc)
      case (Get x)
      show ?thesis
        by (rule outcome_err) (simp add: Get Inr None get_callback_def build_explicit)
    next
      case (Head x)
      show ?thesis
        by (rule outcome_err) (simp add: Head Inr None head_callback_def build_explicit)
    qed (rule outcome_ok;
         simp add: Inr post_callback_def put_callback_def patch_callback_def
           delete_callback_def build_ok withData_def withDefaultStatusCode_def
           new_Ok_Builder_def)+
  next
    case (Some item)
    show ?thesis
      by (cases vc; rule outcome_ok)
         (simp_all add: Inr Some get_callback_def head_callback_def post_callback_def
            put_callback_def patch_callback_def delete_callback_def build_ok withData_def
            withDefaultStatusCode_def new_Ok_Builder_def)
  qed
qed

lemma invoke_resolved:
  assumes "keySchemaSync d w = Inr (Inr (), w1)"
      and "params_of (client w1) vc = Inr request"
      and "d request (store w1) = (answer, s')"
  shows "invoke d vc callback w =
           callback_of vc callback (w1\<lparr>store := s', issued := issued w1 @ [request]\<rparr>) answer"
  using assms by (simp add: invoke_unfold then_promise_def docClient_def send_def)





lemma range_of_client_code [simp]:
  "determineErrorStatusRange (Status BadRequest) = Client"
  "determineErrorStatusRange (Status NotFound) = Client"
  "determineErrorStatusRange (Status Conflict) = Client"
  by (simp_all add: determineErrorStatusRange_def)


lemma keySchemaSync_resolved: "keySchemaSync d (resolved items) = Inr (Inr (), resolved items)"
  by (simp add: keySchemaSync_def resolved_def)










text \<open>
  C2 does not hold as stated. With a callback supplied, \<open>get\<close> on an existing item hands
  the \<open>Ok\<close> to the callback and leaves the promise of the returned \<open>Result\<close> pending: it
  never resolves.
\<close>

theorem callback_counterexample:
  "invoke table_service (Get [(''id'', JString ''x'')]) True
       (resolved [[(''id'', JString ''x''), (''attr1'', JString ''v1'')]]) =
     Inr \<lparr>promise = Pending,
          callbacks =
            [(None,
              Some \<lparr>ok_defaultStatusCode = Ok,
                    ok_data = Some [(''id'', JString ''x''), (''attr1'', JString ''v1'')]\<rparr>)],
          after =
            \<lparr>client = \<lparr>tableName = ''test'', keys = Some [''id'']\<rparr>,
             store = test_table [[(''id'', JString ''x''), (''attr1'', JString ''v1'')]],
             issued = [DocGet ''test'' [(''id'', JString ''x'')] None]\<rparr>\<rparr>"
  by (simp add: get_def then_promise_def keySchemaSync_def docClient_def send_def
        get_params_def get_callback_def build_ok withData_def withDefaultStatusCode_def
        new_Ok_Builder_def resolve_or_callback_def resolved_def test_table_def
        key_matches_schema_def has_key_def no_output_def)

text \<open>
  C2, as amended. For every verb call whose key schema resolution succeeds, the outcome
  is delivered on one path only. With a callback supplied it is passed to the callback,
  once, as \<open>(err, null)\<close> or \<open>(null, ok)\<close>, and the promise stays pending; with no
  callback the promise is rejected with that same \<open>Err\<close> or fulfilled with that same
  \<open>Ok\<close>. The classification and the effect on the service are the same on both paths.
\<close>

theorem callback_or_promise:
  assumes "keySchemaSync d w = Inr (Inr (), w1)"
  shows "\<exists>w2.
           (\<exists>err. invoke d vc True w =
                    Inr \<lparr>promise = Pending, callbacks = [(Some err, None)], after = w2\<rparr> \<and>
                  invoke d vc False w =
                    Inr \<lparr>promise = Rejected err, callbacks = [], after = w2\<rparr>) \<or>
           (\<exists>ok. invoke d vc True w =
                    Inr \<lparr>promise = Pending, callbacks = [(None, Some ok)], after = w2\<rparr> \<and>
                 invoke d vc False w =
                    Inr \<lparr>promise = Fulfilled ok, callbacks = [], after = w2\<rparr>)"
proof -
  obtain ks where "keys (client w1) = Some ks"
    using keySchemaSync_resolved_keys [OF assms] by blast
  then obtain request where rq: "params_of (client w1) vc = Inr request"
    using params_of_resolved by blast
  obtain answer s1 where ans: "d request (store w1) = (answer, s1)"
    by (cases "d request (store w1)")
  let ?w2 = "w1\<lparr>store := s1, issued := issued w1 @ [request]\<rparr>"
  have inv: "invoke d vc callback w = callback_of vc callback ?w2 answer" for callback
    by (rule invoke_resolved [OF assms rq ans])
  from callback_of_outcome [of vc ?w2 answer] show ?thesis
  proof
    assume "\<exists>err. \<forall>callback. callback_of vc callback ?w2 answer =
              Inr (reject_or_callback callback ?w2 err)"
    then obtain err where
      "\<And>callback. invoke d vc callback w = Inr (reject_or_callback callback ?w2 err)"
      using inv by auto
    from this [of True] this [of False] show ?thesis
      by (intro exI [of _ ?w2] disjI1 exI [of _ err]) (simp add: reject_or_callback_def)
  next
    assume "\<exists>ok. \<forall>callback. callback_of vc callback ?w2 answer =
              Inr (resolve_or_callback callback ?w2 ok)"
    then obtain ok where
      "\<And>callback. invoke d vc callback w = Inr (resolve_or_callback callback ?w2 ok)"
      using inv by auto
    from this [of True] this [of False] show ?thesis
      by (intro exI [of _ ?w2] disjI2 exI [of _ ok]) (simp add: resolve_or_callback_def)
  qed
qed

theorem callback_or_promise_witness:
  "keySchemaSync table_service
       (resolved [[(''id'', JString ''x''), (''attr1'', JString ''v1'')]]) =
     Inr (Inr (), resolved [[(''id'', JString ''x''), (''attr1'', JString ''v1'')]]) \<and>
   invoke table_service (Get [(''id'', JString ''x'')]) False
       (resolved [[(''id'', JString ''x''), (''attr1'', JString ''v1'')]]) =
     Inr \<lparr>promise =
            Fulfilled
              \<lparr>ok_defaultStatusCode = Ok,
               ok_data = Some [(''id'', JString ''x''), (''attr1'', JString ''v1'')]\<rparr>,
          callbacks = [],
          after =
            \<lparr>client = \<lparr>tableName = ''test'', keys = Some [''id'']\<rparr>,
             store = test_table [[(''id'', JString ''x''), (''attr1'', JString ''v1'')]],
             issued = [DocGet ''test'' [(''id'', JString ''x'')] None]\<rparr>\<rparr>"
proof -
  let ?w = "resolved [[(''id'', JString ''x''), (''attr1'', JString ''v1'')]]"
  let ?vc = "Get [(''id'', JString ''x'')]"
  have sync: "keySchemaSync table_service ?w = Inr (Inr (), ?w)"
    by (rule keySchemaSync_resolved)
  have with_callback: "invoke table_service ?vc True ?w =
     Inr \<lparr>promise = Pending,
          callbacks =
            [(None,
              Some \<lparr>ok_defaultStatusCode = Ok,
                    ok_data = Some [(''id'', JString ''x''), (''attr1'', JString ''v1'')]\<rparr>)],
          after =
            \<lparr>client = \<lparr>tableName = ''test'', keys = Some [''id'']\<rparr>,
             store = test_table [[(''id'', JString ''x''), (''attr1'', JString ''v1'')]],
             issued = [DocGet ''test'' [(''id'', JString ''x'')] None]\<rparr>\<rparr>"
    by (simp add: get_def then_promise_def keySchemaSync_def docClient_def send_def
        get_params_def get_callback_def build_ok withData_def withDefaultStatusCode_def
        new_Ok_Builder_def resolve_or_callback_def resolved_def test_table_def
        key_matches_schema_def has_key_def no_output_def)
  show ?thesis
    using sync callback_or_promise [OF sync, of ?vc] with_callback by auto
qed











section \<open>The cached key schema\<close>

lemma lookups_snoc_params:
  "params_of c vc = Inr request \<Longrightarrow> lookups (log @ [request]) = lookups log"
  by (cases vc)
     (auto simp: lookups_def get_params_def head_params_def post_params_def put_params_def
        patch_params_def delete_params_def keyProjectionExpression_def
        keyNotExistConditionalExpression_def keyExistConditionalExpression_def
        split: option.splits)

lemma invoke_cached:
  assumes "keys (client w) = Some ks"
  shows "\<exists>c. invoke d vc callback w = Inr c \<and> client (after c) = client w \<and>
             lookups (issued (after c)) = lookups (issued w)"
proof -
  have sync: "keySchemaSync d w = Inr (Inr (), w)"
    by (rule keySchemaSync_cached [OF assms])
  obtain request where rq: "params_of (client w) vc = Inr request"
    using params_of_resolved [OF assms] by blast
  obtain answer s1 where ans: "d request (store w) = (answer, s1)"
    by (cases "d request (store w)")
  let ?w2 = "w\<lparr>store := s1, issued := issued w @ [request]\<rparr>"
  have "invoke d vc callback w = callback_of vc callback ?w2 answer"
    by (rule invoke_resolved [OF sync rq ans])
  then obtain c where "invoke d vc callback w = Inr c" and "after c = ?w2"
    using callback_of_outcome [of vc ?w2 answer]
    by (auto simp: reject_or_callback_def resolve_or_callback_def)
  then show ?thesis
    using lookups_snoc_params [OF rq] by simp
qed

lemma run_cached:
  "keys (client w) = Some ks \<Longrightarrow>
   \<exists>w'. run d calls w = Inr w' \<and> client w' = client w \<and>
        lookups (issued w') = lookups (issued w)"
proof (induction calls arbitrary: w)
  case Nil
  then show ?case by simp
next
  case (Cons call calls)
  obtain vc callback where call: "call = (vc, callback)" by (cases call)
  obtain c where c: "invoke d vc callback w = Inr c" "client (after c) = client w"
    "lookups (issued (after c)) = lookups (issued w)"
    using invoke_cached [OF Cons.prems] by blast
  then have "keys (client (after c)) = Some ks"
    using Cons.prems by simp
  from Cons.IH [OF this] show ?case
    using c call by simp
qed

lemma lookups_snoc_describe: "lookups (log @ [DescribeTable name]) = lookups log + 1"
  by (simp add: lookups_def)

lemma invoke_first_lookup:
  assumes "keys (client w) = None"
      and "d (DescribeTable (tableName (client w))) (store w) = (Inr out, s')"
      and "Table_KeySchema out = Some schema"
  shows "\<exists>c. invoke d vc callback w = Inr c \<and>
             keys (client (after c)) = Some (map AttributeName schema) \<and>
             lookups (issued (after c)) = lookups (issued w) + 1"
proof -
  let ?w1 = "w\<lparr>store := s', issued := issued w @ [DescribeTable (tableName (client w))],
               client := (client w)\<lparr>keys := Some (map AttributeName schema)\<rparr>\<rparr>"
  have sync: "keySchemaSync d w = Inr (Inr (), ?w1)"
    using assms by (simp add: keySchemaSync_def send_def)
  have cached: "keys (client ?w1) = Some (map AttributeName schema)"
    by simp
  obtain request where rq: "params_of (client ?w1) vc = Inr request"
    using params_of_resolved [OF cached] by blast
  obtain answer s1 where ans: "d request (store ?w1) = (answer, s1)"
    by (cases "d request (store ?w1)")
  let ?w2 = "?w1\<lparr>store := s1, issued := issued ?w1 @ [request]\<rparr>"
  have "invoke d vc callback w = callback_of vc callback ?w2 answer"
    by (rule invoke_resolved [OF sync rq ans])
  then obtain c where "invoke d vc callback w = Inr c" and "after c = ?w2"
    using callback_of_outcome [of vc ?w2 answer]
    by (auto simp: reject_or_callback_def resolve_or_callback_def)
  moreover have "lookups (issued ?w2) = lookups (issued w) + 1"
    using lookups_snoc_params [OF rq, of "issued w @ [DescribeTable (tableName (client w))]"]
    by (simp add: lookups_snoc_describe)
  ultimately show ?thesis
    by simp
qed

lemma invoke_failed_lookup:
  assumes "keys (client w) = None"
      and "d (DescribeTable (tableName (client w))) (store w) = (Inl e, s')"
  shows "\<exists>c. invoke d vc callback w = Inr c \<and> keys (client (after c)) = None \<and>
             lookups (issued (after c)) = lookups (issued w) + 1"
  using assms
  by (simp add: invoke_unfold then_promise_def keySchemaSync_def send_def build_backend_plain
        lookups_snoc_describe)

text \<open>
  C9 does not hold as stated. On a client for a table the service does not know, the
  schema lookup of the first call fails and nothing is cached; the second call issues a
  lookup again, so one client instance has issued two.
\<close>

theorem repeated_lookup_counterexample:
  "run table_service
       [(Get [(''id'', JString ''x'')], False), (Get [(''id'', JString ''x'')], False)]
       (fresh ''missing'' (test_table [])) =
     Inr \<lparr>client = \<lparr>tableName = ''missing'', keys = None\<rparr>,
          store = test_table [],
          issued = [DescribeTable ''missing'', DescribeTable ''missing'']\<rparr> \<and>
   lookups [DescribeTable ''missing'', DescribeTable ''missing''] = 2"
  by (simp add: get_def then_promise_def keySchemaSync_def send_def fresh_def
        new_RestOnDynamoClient_def test_table_def build_backend_plain lookups_def)

text \<open>
  C9, as amended. For calls made one after the other on one client: while no schema
  lookup has succeeded, a call issues one lookup; when that lookup fails nothing is
  cached; when it succeeds the attribute names of the key schema are cached. From then
  on every call, in any number, issues no lookup and leaves the client, and so the cached
  schema, unchanged.
\<close>

theorem key_schema_cached_after_success:
  "(keys (client w) = None \<and>
    d (DescribeTable (tableName (client w))) (store w) = (Inr out, s') \<and>
    Table_KeySchema out = Some schema \<longrightarrow>
      (\<exists>c. invoke d vc callback w = Inr c \<and>
           keys (client (after c)) = Some (map AttributeName schema) \<and>
           lookups (issued (after c)) = lookups (issued w) + 1)) \<and>
   (keys (client w) = Some ks \<longrightarrow>
      (\<exists>w'. run d calls w = Inr w' \<and> client w' = client w \<and>
            lookups (issued w') = lookups (issued w))) \<and>
   (keys (client w) = None \<and>
    d (DescribeTable (tableName (client w))) (store w) = (Inl e, s') \<longrightarrow>
      (\<exists>c. invoke d vc callback w = Inr c \<and> keys (client (after c)) = None \<and>
           lookups (issued (after c)) = lookups (issued w) + 1))"
  using invoke_first_lookup [of w d out s' schema vc callback]
    run_cached [of w ks d calls] invoke_failed_lookup [of w d e s' vc callback]
  by blast

theorem key_schema_cached_after_success_witness:
  "(\<exists>c. invoke table_service (Get [(''id'', JString ''x'')]) False
          (fresh ''test'' (test_table [])) = Inr c \<and>
        keys (client (after c)) = Some [''id''] \<and> lookups (issued (after c)) = 1) \<and>
   (\<exists>w'. run table_service
           [(Post [(''id'', JString ''x'')] [(''attr1'', JString ''v1'')], False),
            (Get [(''id'', JString ''x'')], True), (Delete [(''id'', JString ''x'')], False)]
           (resolved []) = Inr w' \<and>
         client w' = \<lparr>tableName = ''test'', keys = Some [''id'']\<rparr> \<and>
         lookups (issued w') = 0) \<and>
   (\<exists>c. invoke table_service (Get [(''id'', JString ''x'')]) False
          (fresh ''missing'' (test_table [])) = Inr c \<and>
        keys (client (after c)) = None \<and> lookups (issued (after c)) = 1)"
proof -
  let ?out = "no_output\<lparr>Table_KeySchema := Some [\<lparr>AttributeName = ''id'', KeyType = ''HASH''\<rparr>]\<rparr>"
  let ?e = "failure ResourceNotFoundException ''Requested resource not found''"
  have found: "table_service (DescribeTable (tableName (client (fresh ''test'' (test_table [])))))
          (store (fresh ''test'' (test_table []))) = (Inr ?out, test_table [])"
    by (simp add: fresh_def new_RestOnDynamoClient_def test_table_def)
  have missing: "table_service
          (DescribeTable (tableName (client (fresh ''missing'' (test_table [])))))
          (store (fresh ''missing'' (test_table []))) = (Inl ?e, test_table [])"
    by (simp add: fresh_def new_RestOnDynamoClient_def test_table_def)
  have first: "\<exists>c. invoke table_service (Get [(''id'', JString ''x'')]) False
          (fresh ''test'' (test_table [])) = Inr c \<and>
        keys (client (after c)) = Some [''id''] \<and> lookups (issued (after c)) = 1"
    using key_schema_cached_after_success
      [where d = table_service and w = "fresh ''test'' (test_table [])" and out = ?out
         and s' = "test_table []"
         and schema = "[\<lparr>AttributeName = ''id'', KeyType = ''HASH''\<rparr>]"
         and vc = "Get [(''id'', JString ''x'')]" and callback = False]
      found
    by (simp add: fresh_def new_RestOnDynamoClient_def no_output_def lookups_def)
  have later: "\<exists>w'. run table_service
           [(Post [(''id'', JString ''x'')] [(''attr1'', JString ''v1'')], False),
            (Get [(''id'', JString ''x'')], True), (Delete [(''id'', JString ''x'')], False)]
           (resolved []) = Inr w' \<and>
         client w' = \<lparr>tableName = ''test'', keys = Some [''id'']\<rparr> \<and>
         lookups (issued w') = 0"
    using key_schema_cached_after_success
      [where d = table_service and w = "resolved []" and ks = "[''id'']"
         and calls = "[(Post [(''id'', JString ''x'')] [(''attr1'', JString ''v1'')], False),
            (Get [(''id'', JString ''x'')], True), (Delete [(''id'', JString ''x'')], False)]"]
    by (simp add: resolved_def lookups_def)
  have failed: "\<exists>c. invoke table_service (Get [(''id'', JString ''x'')]) False
          (fresh ''missing'' (test_table [])) = Inr c \<and>
        keys (client (after c)) = None \<and> lookups (issued (after c)) = 1"
    using key_schema_cached_after_success
      [where d = table_service and w = "fresh ''missing'' (test_table [])" and e = ?e
         and s' = "test_table []" and vc = "Get [(''id'', JString ''x'')]"
         and callback = False]
      missing
    by (simp add: fresh_def new_RestOnDynamoClient_def lookups_def)
  show ?thesis
    using first later failed by blast
qed


section \<open>The item written by post and put\<close>



end
